theory Spec2Isabelle
  imports Complex_Main
begin

section \<open>Numbers of the source language\<close>

text \<open>
  A JavaScript number is modelled as an exact real or one of the three special
  values of IEEE arithmetic. Rounding, overflow and the sign of zero are not
  modelled: a zero divisor is taken as \<open>+0\<close>.
\<close>

datatype jsnum = Fin real | NaN | PosInf | NegInf

fun jsign :: "jsnum \<Rightarrow> real" where
  "jsign (Fin a) = sgn a"
| "jsign PosInf = 1"
| "jsign NegInf = - 1"
| "jsign NaN = 0"

definition inf_of_sign :: "real \<Rightarrow> jsnum" where
  "inf_of_sign s = (if s = 0 then NaN else if 0 < s then PosInf else NegInf)"

instantiation jsnum :: "{plus, uminus, minus, times, inverse}"
begin

fun plus_jsnum :: "jsnum \<Rightarrow> jsnum \<Rightarrow> jsnum" where
  "Fin a + Fin b = Fin (a + b)"
| "NaN + _ = NaN"
| "_ + NaN = NaN"
| "PosInf + NegInf = NaN"
| "NegInf + PosInf = NaN"
| "PosInf + _ = PosInf"
| "_ + PosInf = PosInf"
| "NegInf + _ = NegInf"
| "_ + NegInf = NegInf"

fun uminus_jsnum :: "jsnum \<Rightarrow> jsnum" where
  "- Fin a = Fin (- a)"
| "- NaN = NaN"
| "- PosInf = NegInf"
| "- NegInf = PosInf"

definition minus_jsnum :: "jsnum \<Rightarrow> jsnum \<Rightarrow> jsnum" where
  "minus_jsnum a b = a + (- b)"

fun times_jsnum :: "jsnum \<Rightarrow> jsnum \<Rightarrow> jsnum" where
  "Fin a * Fin b = Fin (a * b)"
| "NaN * _ = NaN"
| "_ * NaN = NaN"
| "a * b = inf_of_sign (jsign a * jsign b)"

fun divide_jsnum :: "jsnum \<Rightarrow> jsnum \<Rightarrow> jsnum" where
  "divide_jsnum (Fin a) (Fin b) = (if b = 0 then inf_of_sign a else Fin (a / b))"
| "divide_jsnum NaN _ = NaN"
| "divide_jsnum _ NaN = NaN"
| "divide_jsnum (Fin a) _ = Fin 0"
| "divide_jsnum PosInf (Fin b) = (if 0 \<le> b then PosInf else NegInf)"
| "divide_jsnum NegInf (Fin b) = (if 0 \<le> b then NegInf else PosInf)"
| "divide_jsnum _ _ = NaN"

definition inverse_jsnum :: "jsnum \<Rightarrow> jsnum" where
  "inverse_jsnum a = divide (Fin 1) a"

instance ..

end

fun Math_cos :: "jsnum \<Rightarrow> jsnum" where
  "Math_cos (Fin a) = Fin (cos a)"
| "Math_cos _ = NaN"

fun Math_sin :: "jsnum \<Rightarrow> jsnum" where
  "Math_sin (Fin a) = Fin (sin a)"
| "Math_sin _ = NaN"

fun Math_acos :: "jsnum \<Rightarrow> jsnum" where
  "Math_acos (Fin a) = (if - 1 \<le> a \<and> a \<le> 1 then Fin (arccos a) else NaN)"
| "Math_acos _ = NaN"

fun Math_cbrt :: "jsnum \<Rightarrow> jsnum" where
  "Math_cbrt (Fin a) = Fin (root 3 a)"
| "Math_cbrt NaN = NaN"
| "Math_cbrt PosInf = PosInf"
| "Math_cbrt NegInf = NegInf"

fun Math_exp :: "jsnum \<Rightarrow> jsnum" where
  "Math_exp (Fin a) = Fin (exp a)"
| "Math_exp NaN = NaN"
| "Math_exp PosInf = PosInf"
| "Math_exp NegInf = Fin 0"

fun Math_sqrt :: "jsnum \<Rightarrow> jsnum" where
  "Math_sqrt (Fin a) = (if 0 \<le> a then Fin (sqrt a) else NaN)"
| "Math_sqrt PosInf = PosInf"
| "Math_sqrt _ = NaN"

definition Math_PI :: jsnum where
  "Math_PI = Fin pi"

text \<open>
  \<open>Math.random()\<close> reads the next value of a source of uniforms and advances
  it. The source is any function from draw number to value; that a draw lies
  in \<open>[0, 1)\<close> is stated where a property needs it.
\<close>

type_synonym rng = "(nat \<Rightarrow> real) \<times> nat"

fun Math_random :: "rng \<Rightarrow> jsnum \<times> rng" where
  "Math_random (src, n) = (Fin (src n), (src, Suc n))"

section \<open>Vectors\<close>

record Vector3 =
  vx :: jsnum
  vy :: jsnum
  vz :: jsnum

definition new_Vector3 :: "jsnum \<Rightarrow> jsnum \<Rightarrow> jsnum \<Rightarrow> Vector3" where
  "new_Vector3 a b c = \<lparr>vx = a, vy = b, vz = c\<rparr>"

definition Vector3_add :: "Vector3 \<Rightarrow> Vector3 \<Rightarrow> Vector3" where
  "Vector3_add u v = \<lparr>vx = vx u + vx v, vy = vy u + vy v, vz = vz u + vz v\<rparr>"

definition Vector3_length :: "Vector3 \<Rightarrow> jsnum" where
  "Vector3_length v = Math_sqrt (vx v * vx v + vy v * vy v + vz v * vz v)"

section \<open>Position generators\<close>

definition getPhyllotaxisPosition ::
  "nat \<Rightarrow> nat \<Rightarrow> real \<Rightarrow> real \<Rightarrow> rng \<Rightarrow> Vector3 \<times> rng" where
  "getPhyllotaxisPosition index total' maxRadius heightScale g =
     (let angle = Fin (real index) * Fin 137.5 * (Math_PI / Fin 180);
          normalizedHeight = Fin (real index) / Fin (real total');
          (rnd, g') = Math_random g;
          currentRadius =
            Fin maxRadius * (Fin 1 - normalizedHeight) * (Fin 0.8 + rnd * Fin 0.4);
          x = Math_cos angle * currentRadius;
          z = Math_sin angle * currentRadius;
          y = normalizedHeight * Fin heightScale - Fin heightScale / Fin 2
      in (new_Vector3 x y z, g'))"

definition randomVectorInSphere :: "real \<Rightarrow> rng \<Rightarrow> Vector3 \<times> rng" where
  "randomVectorInSphere radius g =
     (let (u, g1) = Math_random g;
          (v, g2) = Math_random g1;
          theta = Fin 2 * Math_PI * u;
          phi = Math_acos (Fin 2 * v - Fin 1);
          (w, g3) = Math_random g2;
          r = Math_cbrt w * Fin radius
      in (new_Vector3 (r * Math_sin phi * Math_cos theta)
                      (r * Math_sin phi * Math_sin theta)
                      (r * Math_cos phi), g3))"

section \<open>Interpolation primitives of the three library\<close>

text \<open>
  Modelled from the spec: \<open>THREE.MathUtils.lerp\<close> belongs to the three
  library and is not part of the sources. The spec names it as the linear
  interpolation between two positions by a blend factor; it is taken as the
  library computes it, \<open>(1 - t) * x + t * y\<close>.
\<close>

definition lerp :: "jsnum \<Rightarrow> jsnum \<Rightarrow> jsnum \<Rightarrow> jsnum" where
  "lerp a b t = (Fin 1 - t) * a + t * b"

text \<open>
  Modelled from the spec: \<open>THREE.MathUtils.damp\<close> belongs to the three
  library and is not part of the sources. The spec gives it as
  \<open>damp(current, target, rate, deltaTime) = target + (current - target) * exp(-rate * deltaTime)\<close>.
\<close>

definition damp :: "jsnum \<Rightarrow> jsnum \<Rightarrow> jsnum \<Rightarrow> jsnum \<Rightarrow> jsnum" where
  "damp current target rate deltaTime =
     target + (current - target) * Math_exp (- rate * deltaTime)"

section \<open>Scene objects\<close>

text \<open>
  The orientation of an object is kept symbolically, as the calls that set
  it: \<open>rotation.set\<close>, \<open>lookAt\<close> (from the object's position towards a
  target) and \<open>rotateZ\<close>. The matrix of an object is kept as the position,
  orientation and scale it was composed from by \<open>updateMatrix\<close>.
\<close>

datatype Orientation =
    Euler jsnum jsnum jsnum
  | LookAt Vector3 Vector3
  | RotateZ Orientation jsnum

record Matrix4 =
  m_position :: Vector3
  m_rotation :: Orientation
  m_scale :: Vector3

record Object3D =
  position :: Vector3
  rotation :: Orientation
  obj_scale :: Vector3
  matrix :: Matrix4

definition new_Object3D :: Object3D where
  "new_Object3D =
     \<lparr>position = new_Vector3 (Fin 0) (Fin 0) (Fin 0),
      rotation = Euler (Fin 0) (Fin 0) (Fin 0),
      obj_scale = new_Vector3 (Fin 1) (Fin 1) (Fin 1),
      matrix = \<lparr>m_position = new_Vector3 (Fin 0) (Fin 0) (Fin 0),
                m_rotation = Euler (Fin 0) (Fin 0) (Fin 0),
                m_scale = new_Vector3 (Fin 1) (Fin 1) (Fin 1)\<rparr>\<rparr>"

definition setScalar :: "jsnum \<Rightarrow> Vector3" where
  "setScalar s = new_Vector3 s s s"

definition updateMatrix :: "Object3D \<Rightarrow> Object3D" where
  "updateMatrix obj =
     obj\<lparr>matrix := \<lparr>m_position = position obj, m_rotation = rotation obj,
                     m_scale = obj_scale obj\<rparr>\<rparr>"

definition lookAt :: "Vector3 \<Rightarrow> Object3D \<Rightarrow> Object3D" where
  "lookAt target obj = obj\<lparr>rotation := LookAt (position obj) target\<rparr>"

definition rotateZ :: "jsnum \<Rightarrow> Object3D \<Rightarrow> Object3D" where
  "rotateZ a obj = obj\<lparr>rotation := RotateZ (rotation obj) a\<rparr>"

record InstancedMesh =
  instanceMatrix :: "Matrix4 list"
  needsUpdate :: bool

definition setMatrixAt :: "nat \<Rightarrow> Matrix4 \<Rightarrow> InstancedMesh \<Rightarrow> InstancedMesh" where
  "setMatrixAt i m mesh = mesh\<lparr>instanceMatrix := (instanceMatrix mesh)[i := m]\<rparr>"

text \<open>What a frame callback reads from the render loop's state.\<close>

record RootState =
  elapsedTime :: jsnum
  cameraPosition :: Vector3

section \<open>Hooks\<close>

text \<open>
  \<open>useMemo(factory, deps)\<close>: the cell of the hook holds the dependencies and
  the value of the last computation; the factory runs again only when the
  dependencies differ from the stored ones.
\<close>

definition useMemo ::
  "(rng \<Rightarrow> 'a \<times> rng) \<Rightarrow> 'd \<Rightarrow> ('d \<times> 'a) option \<Rightarrow> rng \<Rightarrow> 'a \<times> ('d \<times> 'a) option \<times> rng" where
  "useMemo factory deps cell g =
     (case cell of
        Some (deps0, v) \<Rightarrow>
          if deps0 = deps then (v, cell, g)
          else (let (v1, g1) = factory g in (v1, Some (deps, v1), g1))
      | None \<Rightarrow> (let (v1, g1) = factory g in (v1, Some (deps, v1), g1)))"

text \<open>
  \<open>Array.from({ length: n }, f)\<close>: \<open>f\<close> is called for the indices
  \<open>0, \<dots>, n - 1\<close> in order; no call is made when \<open>n = 0\<close>.
\<close>

fun Array_from_loop ::
  "(nat \<Rightarrow> rng \<Rightarrow> 'a \<times> rng) \<Rightarrow> nat \<Rightarrow> nat \<Rightarrow> rng \<Rightarrow> 'a list \<times> rng" where
  "Array_from_loop f i 0 g = ([], g)"
| "Array_from_loop f i (Suc k) g =
     (let (a, g1) = f i g;
          (as, g2) = Array_from_loop f (Suc i) k g1
      in (a # as, g2))"

definition Array_from :: "nat \<Rightarrow> (nat \<Rightarrow> rng \<Rightarrow> 'a \<times> rng) \<Rightarrow> rng \<Rightarrow> 'a list \<times> rng" where
  "Array_from len f g = Array_from_loop f 0 len g"

section \<open>Needle particles\<close>

record BaseParticleData =
  treePos :: Vector3
  scatterPos :: Vector3
  speed :: jsnum
  rotationOffset :: jsnum

record NeedleParticleData = BaseParticleData +
  scale :: jsnum

definition needle_particle :: "nat \<Rightarrow> nat \<Rightarrow> rng \<Rightarrow> NeedleParticleData \<times> rng" where
  "needle_particle i count g =
     (let (tp, g1) = getPhyllotaxisPosition i count 4.5 10 g;
          (sp, g2) = randomVectorInSphere 18 g1;
          (r1, g3) = Math_random g2;
          (r2, g4) = Math_random g3;
          (r3, g5) = Math_random g4
      in (\<lparr>treePos = tp, scatterPos = sp,
           speed = r1 * Fin 0.2 + Fin 0.1,
           rotationOffset = r2 * Math_PI,
           scale = r3 * Fin 0.6 + Fin 0.4\<rparr>, g5))"

definition NeedleParticles_data :: "nat \<Rightarrow> rng \<Rightarrow> NeedleParticleData list \<times> rng" where
  "NeedleParticles_data count g = Array_from count (\<lambda>i. needle_particle i count) g"

definition targetT_of :: "string \<Rightarrow> jsnum" where
  "targetT_of mode' = (if mode' = ''TREE_SHAPE'' then Fin 1 else Fin 0)"

text \<open>
  The body of \<open>data.forEach\<close> in the frame callback of the needles: the three
  damp steps read and write the position of the one \<open>dummy\<close> object.
\<close>

definition needle_step ::
  "jsnum \<Rightarrow> RootState \<Rightarrow> jsnum \<Rightarrow> NeedleParticleData \<Rightarrow> nat \<Rightarrow>
   Object3D \<times> InstancedMesh \<Rightarrow> Object3D \<times> InstancedMesh" where
  "needle_step targetT state delta particle i s =
     (let dummy = fst s; mesh = snd s;
          d1 = dummy\<lparr>position := (position dummy)\<lparr>vx :=
                 damp (vx (position dummy))
                      (lerp (vx (scatterPos particle)) (vx (treePos particle)) targetT)
                      (Fin 1.5) delta\<rparr>\<rparr>;
          d2 = d1\<lparr>position := (position d1)\<lparr>vy :=
                 damp (vy (position d1))
                      (lerp (vy (scatterPos particle)) (vy (treePos particle)) targetT)
                      (Fin 1.5) delta\<rparr>\<rparr>;
          d3 = d2\<lparr>position := (position d2)\<lparr>vz :=
                 damp (vz (position d2))
                      (lerp (vz (scatterPos particle)) (vz (treePos particle)) targetT)
                      (Fin 1.5) delta\<rparr>\<rparr>;
          time = elapsedTime state;
          d4 = d3\<lparr>rotation := Euler
                 (Math_sin (time * speed particle * Fin 0.5 + rotationOffset particle) * Fin 0.2)
                 (time * speed particle + rotationOffset particle)
                 (Math_cos (time * speed particle * Fin 0.5 + rotationOffset particle) * Fin 0.2)\<rparr>;
          d5 = d4\<lparr>obj_scale := setScalar (scale particle)\<rparr>;
          d6 = updateMatrix d5
      in (d6, setMatrixAt i (matrix d6) mesh))"

fun needle_forEach ::
  "jsnum \<Rightarrow> RootState \<Rightarrow> jsnum \<Rightarrow> NeedleParticleData list \<Rightarrow> nat \<Rightarrow>
   Object3D \<times> InstancedMesh \<Rightarrow> Object3D \<times> InstancedMesh" where
  "needle_forEach targetT state delta [] i s = s"
| "needle_forEach targetT state delta (particle # rest) i s =
     needle_forEach targetT state delta rest (Suc i)
       (needle_step targetT state delta particle i s)"

definition NeedleParticles_useFrame ::
  "string \<Rightarrow> NeedleParticleData list \<Rightarrow> RootState \<Rightarrow> jsnum \<Rightarrow>
   Object3D \<times> InstancedMesh option \<Rightarrow> Object3D \<times> InstancedMesh option" where
  "NeedleParticles_useFrame mode' data state delta s =
     (case snd s of
        None \<Rightarrow> s
      | Some mesh \<Rightarrow>
          (let targetT = targetT_of mode';
               (dummy1, mesh1) = needle_forEach targetT state delta data 0 (fst s, mesh)
           in (dummy1, Some (mesh1\<lparr>needsUpdate := True\<rparr>))))"

section \<open>Photo particles\<close>

definition PhotoParticle_data :: "nat \<Rightarrow> nat \<Rightarrow> rng \<Rightarrow> BaseParticleData \<times> rng" where
  "PhotoParticle_data index total' g =
     (let (tp, g1) = getPhyllotaxisPosition index total' 5.5 11 g;
          (sp, g2) = randomVectorInSphere 20 g1;
          (r1, g3) = Math_random g2;
          (r2, g4) = Math_random g3
      in (\<lparr>treePos = Vector3_add tp (new_Vector3 (Fin 0) (Fin 0.5) (Fin 0)),
           scatterPos = sp,
           speed = r1 * Fin 0.1 + Fin 0.05,
           rotationOffset = r2 * Math_PI\<rparr>, g4))"

text \<open>
  One render of a photo element: \<open>useMemo\<close> with the dependencies
  \<open>[index, total]\<close>. The element keeps its hook cell from one render to the
  next (its key is unchanged when urls are appended).
\<close>

definition PhotoParticle_render ::
  "nat \<Rightarrow> nat \<Rightarrow> ((nat \<times> nat) \<times> BaseParticleData) option \<Rightarrow> rng \<Rightarrow>
   BaseParticleData \<times> ((nat \<times> nat) \<times> BaseParticleData) option \<times> rng" where
  "PhotoParticle_render index total' cell g =
     useMemo (PhotoParticle_data index total') (index, total') cell g"

definition PhotoParticle_useFrame ::
  "string \<Rightarrow> BaseParticleData \<Rightarrow> RootState \<Rightarrow> jsnum \<Rightarrow> Object3D option \<Rightarrow> Object3D option" where
  "PhotoParticle_useFrame mode' data state delta ref =
     (case ref of
        None \<Rightarrow> None
      | Some m \<Rightarrow>
          (let targetT = targetT_of mode';
               m1 = m\<lparr>position := (position m)\<lparr>vx :=
                      damp (vx (position m))
                           (lerp (vx (scatterPos data)) (vx (treePos data)) targetT)
                           (Fin 1.2) delta\<rparr>\<rparr>;
               m2 = m1\<lparr>position := (position m1)\<lparr>vy :=
                      damp (vy (position m1))
                           (lerp (vy (scatterPos data)) (vy (treePos data)) targetT)
                           (Fin 1.2) delta\<rparr>\<rparr>;
               m3 = m2\<lparr>position := (position m2)\<lparr>vz :=
                      damp (vz (position m2))
                           (lerp (vz (scatterPos data)) (vz (treePos data)) targetT)
                           (Fin 1.2) delta\<rparr>\<rparr>;
               m4 = lookAt (cameraPosition state) m3;
               m5 = rotateZ (Math_sin (elapsedTime state * speed data + rotationOffset data)
                             * Fin 0.1) m4
           in Some m5))"

section \<open>The application state\<close>

record AppState =
  mode :: string
  imageUrls :: "string list"

definition App_initial :: AppState where
  "App_initial = \<lparr>mode = ''SCATTERED'', imageUrls = []\<rparr>"

text \<open>
  \<open>handleImageUpload\<close>: \<open>event.target.files\<close> is a list of files or null;
  \<open>URL.createObjectURL\<close> is the browser's and is a parameter.
\<close>

definition handleImageUpload :: "('file \<Rightarrow> string) \<Rightarrow> 'file list option \<Rightarrow> AppState \<Rightarrow> AppState" where
  "handleImageUpload createObjectURL files st =
     (case files of
        None \<Rightarrow> st
      | Some fs \<Rightarrow>
          (let newUrls = map createObjectURL fs;
               st1 = st\<lparr>imageUrls := imageUrls st @ newUrls\<rparr>
           in st1\<lparr>mode := ''SCATTERED''\<rparr>))"

definition toggleMode :: "AppState \<Rightarrow> AppState" where
  "toggleMode st =
     st\<lparr>mode := (if mode st = ''SCATTERED'' then ''TREE_SHAPE'' else ''SCATTERED'')\<rparr>"

text \<open>
  The photo elements of one render: one per url, with its index and the
  length of the list as \<open>total\<close>.
\<close>

record PhotoProps =
  p_mode :: string
  p_url :: string
  p_index :: nat
  p_total :: nat

definition App_photos :: "AppState \<Rightarrow> PhotoProps list" where
  "App_photos st =
     map (\<lambda>(index, url). \<lparr>p_mode = mode st, p_url = url, p_index = index,
                             p_total = length (imageUrls st)\<rparr>)
         (enumerate 0 (imageUrls st))"

section \<open>Comparisons, sources of draws and other notions used in the statements\<close>

text \<open>The comparison \<open><\<close> of the source language: false when an operand is NaN.\<close>

fun js_less :: "jsnum \<Rightarrow> jsnum \<Rightarrow> bool" where
  "js_less (Fin a) (Fin b) = (a < b)"
| "js_less NaN _ = False"
| "js_less _ NaN = False"
| "js_less NegInf NegInf = False"
| "js_less NegInf _ = True"
| "js_less PosInf _ = False"
| "js_less (Fin a) PosInf = True"
| "js_less (Fin a) NegInf = False"

fun Math_abs :: "jsnum \<Rightarrow> jsnum" where
  "Math_abs (Fin a) = Fin \<bar>a\<bar>"
| "Math_abs NaN = NaN"
| "Math_abs PosInf = PosInf"
| "Math_abs NegInf = PosInf"

fun isFinite :: "jsnum \<Rightarrow> bool" where
  "isFinite (Fin a) = True"
| "isFinite _ = False"

definition Vector3_finite :: "Vector3 \<Rightarrow> bool" where
  "Vector3_finite v = (isFinite (vx v) \<and> isFinite (vy v) \<and> isFinite (vz v))"

text \<open>The distance of a point from the vertical axis of the tree.\<close>

definition horizontal_radius :: "Vector3 \<Rightarrow> jsnum" where
  "horizontal_radius v = Math_sqrt (vx v * vx v + vz v * vz v)"

text \<open>Two concrete sources of draws: a constant one, and one that replays a list.\<close>

definition const_source :: "real \<Rightarrow> nat \<Rightarrow> real" where
  "const_source c n = c"

definition list_source :: "real list \<Rightarrow> nat \<Rightarrow> real" where
  "list_source xs n = (if n < length xs then xs ! n else 0)"

text \<open>
  Two successive renders of one photo element, the first with no stored
  value, the second with the hook cell the first one left: the two records
  the element works with.
\<close>

definition PhotoParticle_two_renders ::
  "nat \<Rightarrow> nat \<Rightarrow> nat \<Rightarrow> rng \<Rightarrow> BaseParticleData \<times> BaseParticleData" where
  "PhotoParticle_two_renders index total1 total2 g =
     (let (d1, cell1, g1) = PhotoParticle_render index total1 None g;
          (d2, cell2, g2) = PhotoParticle_render index total2 cell1 g1
      in (d1, d2))"

text \<open>Concrete inputs for the examples: a frame state, a needle record, a photo record.\<close>

definition sample_state :: RootState where
  "sample_state = \<lparr>elapsedTime = Fin 2, cameraPosition = new_Vector3 (Fin 0) (Fin 0) (Fin 18)\<rparr>"

definition sample_needle :: NeedleParticleData where
  "sample_needle =
     \<lparr>treePos = new_Vector3 (Fin 1) (Fin 2) (Fin 3),
      scatterPos = new_Vector3 (Fin 9) (Fin 0) (Fin (- 4)),
      speed = Fin 0.2, rotationOffset = Fin 1, scale = Fin 0.5\<rparr>"

definition sample_photo :: BaseParticleData where
  "sample_photo =
     \<lparr>treePos = new_Vector3 (Fin 2) (Fin 1) (Fin 0),
      scatterPos = new_Vector3 (Fin (- 10)) (Fin 5) (Fin 0),
      speed = Fin 0.1, rotationOffset = Fin 2\<rparr>"

definition sample_mesh :: InstancedMesh where
  "sample_mesh = \<lparr>instanceMatrix = [matrix new_Object3D], needsUpdate = False\<rparr>"

text \<open>
  A run of frame callbacks of the needles, one per tick of the render loop,
  and the position stored in slot \<open>i\<close> of the instanced mesh.
\<close>

fun NeedleParticles_frames ::
  "string \<Rightarrow> NeedleParticleData list \<Rightarrow> (RootState \<times> jsnum) list \<Rightarrow>
   Object3D \<times> InstancedMesh option \<Rightarrow> Object3D \<times> InstancedMesh option" where
  "NeedleParticles_frames mode' data [] s = s"
| "NeedleParticles_frames mode' data ((state, delta) # ticks) s =
     NeedleParticles_frames mode' data ticks (NeedleParticles_useFrame mode' data state delta s)"

definition slot_position :: "nat \<Rightarrow> Object3D \<times> InstancedMesh option \<Rightarrow> Vector3 option" where
  "slot_position i s =
     (case snd s of
        None \<Rightarrow> None
      | Some mesh \<Rightarrow>
          if i < length (instanceMatrix mesh) then Some (m_position (instanceMatrix mesh ! i))
          else None)"

text \<open>
  Two needles as the generator makes them from the draws listed (per needle:
  jitter, \<open>u\<close>, \<open>v\<close>, \<open>w\<close>, speed, rotation offset, scale), and a mesh of two
  slots with the dummy object as created.
\<close>

definition two_needles :: "NeedleParticleData list" where
  "two_needles =
     fst (NeedleParticles_data 2
            (list_source [1 / 2, 0, 1 / 2, 0, 0, 0, 0, 1 / 2, 0, 1 / 2, 1 / 8, 0, 0, 0], 0))"

definition two_slots :: "Object3D \<times> InstancedMesh option" where
  "two_slots =
     (new_Object3D,
      Some \<lparr>instanceMatrix = [matrix new_Object3D, matrix new_Object3D], needsUpdate = False\<rparr>)"

section \<open>The layout controller\<close>

text \<open>
  C4: an upload of \<open>n\<close> files to a collection of \<open>K\<close> urls gives a collection of
  \<open>K + n\<close> urls, the \<open>K\<close> former ones first and in their order, the new ones
  after them at the indices \<open>K, \<dots>, K + n - 1\<close>; the photo elements of the next
  render carry the indices \<open>0, \<dots>, K + n - 1\<close>; and the mode is \<open>SCATTERED\<close>
  whatever it was before.
\<close>

theorem handleImageUpload_appends:
  "imageUrls (handleImageUpload createObjectURL (Some fs) st)
     = imageUrls st @ map createObjectURL fs
   \<and> length (imageUrls (handleImageUpload createObjectURL (Some fs) st))
     = length (imageUrls st) + length fs
   \<and> take (length (imageUrls st)) (imageUrls (handleImageUpload createObjectURL (Some fs) st))
     = imageUrls st
   \<and> map p_index (App_photos (handleImageUpload createObjectURL (Some fs) st))
     = [0 ..< length (imageUrls st) + length fs]
   \<and> map p_url (App_photos (handleImageUpload createObjectURL (Some fs) st))
     = imageUrls st @ map createObjectURL fs
   \<and> mode (handleImageUpload createObjectURL (Some fs) st) = ''SCATTERED''"
  by (simp add: handleImageUpload_def App_photos_def map_fst_enumerate map_snd_enumerate
        comp_def case_prod_unfold)

section \<open>The damped interpolator\<close>

lemma damp_Fin:
  "damp (Fin c) (Fin tg) (Fin r) (Fin dt) = Fin (tg + (c - tg) * exp (- r * dt))"
  by (simp add: damp_def minus_jsnum_def)

text \<open>
  C5: on finite numbers \<open>damp\<close> is \<open>target + (current - target) * exp (- rate * dt)\<close>,
  and two steps of lengths \<open>t1\<close> and \<open>t2\<close> towards the same target give exactly
  what one step of length \<open>t1 + t2\<close> gives (over the reals).
\<close>

theorem damp_step_size_independent:
  "damp (Fin c) (Fin tg) (Fin r) (Fin dt) = Fin (tg + (c - tg) * exp (- r * dt))
   \<and> damp (damp (Fin c) (Fin tg) (Fin r) (Fin t1)) (Fin tg) (Fin r) (Fin t2)
       = damp (Fin c) (Fin tg) (Fin r) (Fin (t1 + t2))"
  by (simp add: damp_Fin exp_add [symmetric] algebra_simps)

section \<open>The mode read by the animators\<close>

text \<open>
  C9: for every mode string other than \<open>TREE_SHAPE\<close> (so for every string that
  is neither of the two variants) the blend factor is 0 and the frame
  callbacks of the needles and of a photo compute what they compute for
  \<open>SCATTERED\<close>; both callbacks are total functions.
\<close>

theorem unknown_mode_is_scattered:
  assumes "mode' \<noteq> ''TREE_SHAPE''"
  shows "targetT_of mode' = Fin 0
     \<and> NeedleParticles_useFrame mode' data state delta s
         = NeedleParticles_useFrame ''SCATTERED'' data state delta s
     \<and> PhotoParticle_useFrame mode' pdata state delta ref
         = PhotoParticle_useFrame ''SCATTERED'' pdata state delta ref"
proof -
  have t: "targetT_of mode' = Fin 0"
    using assms by (simp add: targetT_of_def)
  have t0: "targetT_of ''SCATTERED'' = Fin 0"
    by (simp add: targetT_of_def)
  show ?thesis
    unfolding NeedleParticles_useFrame_def PhotoParticle_useFrame_def t t0 by simp
qed

theorem unknown_mode_is_scattered_witness:
  "targetT_of ''CORRUPT'' = Fin 0
     \<and> NeedleParticles_useFrame ''CORRUPT'' [sample_needle] sample_state (Fin 0.016)
           (new_Object3D, Some sample_mesh)
         = NeedleParticles_useFrame ''SCATTERED'' [sample_needle] sample_state (Fin 0.016)
           (new_Object3D, Some sample_mesh)
     \<and> PhotoParticle_useFrame ''CORRUPT'' sample_photo sample_state (Fin 0.016) (Some new_Object3D)
         = PhotoParticle_useFrame ''SCATTERED'' sample_photo sample_state (Fin 0.016)
           (Some new_Object3D)"
  using unknown_mode_is_scattered [of "''CORRUPT''"] by simp

text \<open>
  C6, as stated: the distance to the target strictly decreases in one step
  for every current value. It does not when the value is already at the
  target: the step leaves it there and \<open>0 < 0\<close> is false.
\<close>

theorem damp_equal_counterexample:
  "\<not> js_less (Math_abs (damp (Fin 3) (Fin 3) (Fin 1.5) (Fin 1) - Fin 3))
               (Math_abs (Fin 3 - Fin 3))"
  by (simp add: damp_Fin minus_jsnum_def)

text \<open>
  C6, amended: for a positive rate and a positive time step, on finite
  numbers, the distance to the target strictly decreases when the current
  value differs from the target, and a value at the target stays there.
\<close>

theorem damp_converges:
  assumes "0 < r" "0 < dt"
  shows "(c \<noteq> tg \<longrightarrow>
           js_less (Math_abs (damp (Fin c) (Fin tg) (Fin r) (Fin dt) - Fin tg))
                   (Math_abs (Fin c - Fin tg)))
       \<and> (c = tg \<longrightarrow> damp (Fin c) (Fin tg) (Fin r) (Fin dt) = Fin tg)"
proof -
  have e: "exp (- r * dt) < 1"
    using assms by simp
  have "\<bar>(c - tg) * exp (- r * dt)\<bar> < \<bar>c - tg\<bar>" if "c \<noteq> tg"
  proof -
    have "\<bar>(c - tg) * exp (- r * dt)\<bar> = \<bar>c - tg\<bar> * exp (- r * dt)"
      by (simp add: abs_mult)
    also have "\<dots> < \<bar>c - tg\<bar> * 1"
      using that e by (intro mult_strict_left_mono) auto
    finally show ?thesis by simp
  qed
  then show ?thesis
    by (simp add: damp_Fin minus_jsnum_def)
qed

theorem damp_converges_witness:
  "js_less (Math_abs (damp (Fin 0) (Fin 10) (Fin 1.5) (Fin 1) - Fin 10))
           (Math_abs (Fin 0 - Fin 10))
   \<and> damp (Fin 10) (Fin 10) (Fin 1.5) (Fin 1) = Fin 10"
  using damp_converges [of "1.5" 1 0 10] damp_converges [of "1.5" 1 10 10] by simp

section \<open>The position generators\<close>

text \<open>
  C7: with the jitter factor at 1 (the draw is \<open>1/2\<close>, so that
  \<open>0.8 + 0.5 * 0.4 = 1\<close>) and \<open>i < total\<close>, the height of the formation
  position is \<open>(i / total) * H - H / 2\<close>, and the position of index 0 is
  \<open>(R, - H / 2, 0)\<close>. For \<open>total = 10\<close> and \<open>H = 10\<close> index 9 is at height 4
  and index 0 at height -5.
\<close>

theorem phyllotaxis_height:
  assumes "i < total'" "src n = 1 / 2"
  shows "vy (fst (getPhyllotaxisPosition i total' R H (src, n)))
           = Fin (real i / real total' * H - H / 2)
       \<and> fst (getPhyllotaxisPosition 0 total' R H (src, n))
           = new_Vector3 (Fin R) (Fin (- H / 2)) (Fin 0)"
  using assms
  by (simp add: getPhyllotaxisPosition_def Math_PI_def new_Vector3_def minus_jsnum_def)

theorem phyllotaxis_height_witness:
  "vy (fst (getPhyllotaxisPosition 9 10 4.5 10 (const_source (1 / 2), 0))) = Fin 4
   \<and> fst (getPhyllotaxisPosition 0 10 4.5 10 (const_source (1 / 2), 0))
        = new_Vector3 (Fin 4.5) (Fin (- 5)) (Fin 0)"
  using phyllotaxis_height [of 9 10 "const_source (1 / 2)" 0 "4.5" 10]
  by (simp add: const_source_def)

lemma root3_eighth: "root 3 (1 / 8) = 1 / 2"
  by (rule real_root_pos_unique) (simp_all add: power3_eq_cube)

lemma sphere_norm_sq:
  fixes r :: real
  shows "r * sin p * cos t * (r * sin p * cos t) + r * sin p * sin t * (r * sin p * sin t)
           + r * cos p * (r * cos p) = r * r"
proof -
  have ct: "cos t * cos t + sin t * sin t = 1"
    using sin_cos_squared_add2 [of t] by (simp add: power2_eq_square)
  have cp: "sin p * sin p + cos p * cos p = 1"
    using sin_cos_squared_add [of p] by (simp add: power2_eq_square)
  show ?thesis
    using ct cp by algebra
qed

text \<open>
  C8: for a radius \<open>\<ge> 0\<close> and three draws \<open>u, v, w\<close> in \<open>[0, 1)\<close>, taken in
  this order, the point returned is the one at distance \<open>r = cbrt w * radius\<close>
  in the direction \<open>theta = 2 * pi * u\<close>, \<open>phi = acos (2 * v - 1)\<close>; its
  Euclidean norm is \<open>radius * cbrt w\<close>, which is below the radius when the
  radius is positive (and equal to it, 0, when the radius is 0); three draws
  are consumed.
\<close>

theorem randomVectorInSphere_norm:
  assumes "0 \<le> radius"
    and "0 \<le> src n" "src n < 1"
    and "0 \<le> src (Suc n)" "src (Suc n) < 1"
    and "0 \<le> src (Suc (Suc n))" "src (Suc (Suc n)) < 1"
  shows "fst (randomVectorInSphere radius (src, n))
           = new_Vector3
               (Fin (root 3 (src (Suc (Suc n))) * radius
                       * sin (arccos (2 * src (Suc n) - 1)) * cos (2 * pi * src n)))
               (Fin (root 3 (src (Suc (Suc n))) * radius
                       * sin (arccos (2 * src (Suc n) - 1)) * sin (2 * pi * src n)))
               (Fin (root 3 (src (Suc (Suc n))) * radius * cos (arccos (2 * src (Suc n) - 1))))
       \<and> Vector3_length (fst (randomVectorInSphere radius (src, n)))
           = Fin (radius * root 3 (src (Suc (Suc n))))
       \<and> js_less (Vector3_length (fst (randomVectorInSphere radius (src, n)))) (Fin radius)
           = (0 < radius)
       \<and> radius * root 3 (src (Suc (Suc n))) \<le> radius
       \<and> snd (randomVectorInSphere radius (src, n)) = (src, n + 3)"
proof -
  let ?r = "root 3 (src (Suc (Suc n))) * radius"
  let ?p = "arccos (2 * src (Suc n) - 1)"
  let ?t = "2 * pi * src n"
  have pt: "fst (randomVectorInSphere radius (src, n))
      = new_Vector3 (Fin (?r * sin ?p * cos ?t)) (Fin (?r * sin ?p * sin ?t)) (Fin (?r * cos ?p))"
    using assms by (simp add: randomVectorInSphere_def Math_PI_def minus_jsnum_def)
  have r0: "0 \<le> ?r"
    using assms by simp
  have w1: "root 3 (src (Suc (Suc n))) < 1"
    using assms real_root_lt_1_iff [of 3 "src (Suc (Suc n))"] by simp
  have len: "Vector3_length (fst (randomVectorInSphere radius (src, n))) = Fin ?r"
    using r0 by (simp add: pt Vector3_length_def new_Vector3_def sphere_norm_sq del: mult_nonneg_nonneg)
  have lt: "(?r < radius) = (0 < radius)"
  proof
    assume "?r < radius" with r0 show "0 < radius" by linarith
  next
    assume "0 < radius"
    then have "root 3 (src (Suc (Suc n))) * radius < 1 * radius"
      using w1 by (intro mult_strict_right_mono) auto
    then show "?r < radius" by simp
  qed
  have s: "snd (randomVectorInSphere radius (src, n)) = (src, n + 3)"
    by (simp add: randomVectorInSphere_def Let_def)
  have le: "radius * root 3 (src (Suc (Suc n))) \<le> radius"
    using w1 assms(1) by (simp add: mult_left_le)
  show ?thesis
    using pt len lt le s by (simp add: mult.commute)
qed

theorem randomVectorInSphere_norm_witness:
  "fst (randomVectorInSphere 18 (list_source [0, 1 / 2, 1 / 8], 0))
     = new_Vector3 (Fin 9) (Fin 0) (Fin 0)
   \<and> Vector3_length (fst (randomVectorInSphere 18 (list_source [0, 1 / 2, 1 / 8], 0))) = Fin 9
   \<and> js_less (Vector3_length (fst (randomVectorInSphere 18 (list_source [0, 1 / 2, 1 / 8], 0))))
         (Fin 18)"
  using randomVectorInSphere_norm [of 18 "list_source [0, 1 / 2, 1 / 8]" 0]
  by (auto simp add: list_source_def root3_eighth)

section \<open>Photos and needles\<close>

lemma circle_norm:
  fixes c :: real
  shows "sqrt (cos a * c * (cos a * c) + sin a * c * (sin a * c)) = \<bar>c\<bar>"
proof -
  have ct: "cos a * cos a + sin a * sin a = 1"
    using sin_cos_squared_add2 [of a] by (simp add: power2_eq_square)
  have "cos a * c * (cos a * c) + sin a * c * (sin a * c) = c\<^sup>2"
    using ct by algebra
  then show ?thesis by simp
qed

lemma phyllotaxis_radius:
  assumes "0 < total'"
  shows "horizontal_radius (fst (getPhyllotaxisPosition i total' R H (src, n)))
           = Fin \<bar>R * (1 - real i / real total') * (0.8 + src n * 0.4)\<bar>"
  using assms
  by (simp add: getPhyllotaxisPosition_def Math_PI_def new_Vector3_def minus_jsnum_def
        horizontal_radius_def circle_norm Let_def del: real_sqrt_abs2)

lemma photo_treePos:
  "treePos (fst (PhotoParticle_data index total' g))
     = Vector3_add (fst (getPhyllotaxisPosition index total' 5.5 11 g))
         (new_Vector3 (Fin 0) (Fin 0.5) (Fin 0))"
  by (simp add: PhotoParticle_data_def case_prod_unfold Let_def)

lemma needle_treePos:
  "treePos (fst (needle_particle i count g)) = fst (getPhyllotaxisPosition i count 4.5 10 g)"
  by (simp add: needle_particle_def case_prod_unfold Let_def)

lemma phyllotaxis_rng: "snd (getPhyllotaxisPosition i total' R H (src, n)) = (src, Suc n)"
  by (simp add: getPhyllotaxisPosition_def Let_def)

lemma photo_scatterPos:
  "scatterPos (fst (PhotoParticle_data index total' (src, n)))
     = fst (randomVectorInSphere 20 (src, Suc n))"
  by (simp add: PhotoParticle_data_def case_prod_unfold Let_def phyllotaxis_rng)

lemma needle_scatterPos:
  "scatterPos (fst (needle_particle i count (src, n)))
     = fst (randomVectorInSphere 18 (src, Suc n))"
  by (simp add: needle_particle_def case_prod_unfold Let_def phyllotaxis_rng)

lemma horizontal_radius_add_vertical:
  assumes "Vector3_finite v"
  shows "horizontal_radius (Vector3_add v (new_Vector3 (Fin 0) b (Fin 0))) = horizontal_radius v"
  using assms
  by (cases "vx v"; cases "vz v")
     (simp_all add: Vector3_finite_def horizontal_radius_def Vector3_add_def new_Vector3_def)

lemma phyllotaxis_finite:
  assumes "0 < total'"
  shows "Vector3_finite (fst (getPhyllotaxisPosition i total' R H (src, n)))"
  using assms
  by (simp add: getPhyllotaxisPosition_def Math_PI_def new_Vector3_def minus_jsnum_def
        Vector3_finite_def Let_def)

text \<open>
  C10, as stated: at any index a photo's formation radius exceeds the
  needle's at that index, for equal jitter. The two radii are relative to
  different totals: the second of two photos is at radius \<open>5.5 * (1 - 1/2)\<close>,
  the needle of index 1 among the 6000 of the application at
  \<open>4.5 * (1 - 1/6000)\<close>.
\<close>

theorem photo_envelope_counterexample:
  "\<not> js_less (horizontal_radius (treePos (fst (needle_particle 1 6000 (const_source (1 / 2), 0)))))
               (horizontal_radius (treePos (fst (PhotoParticle_data 1 2 (const_source (1 / 2), 0)))))"
  by (simp add: needle_treePos photo_treePos horizontal_radius_add_vertical phyllotaxis_finite
        phyllotaxis_radius const_source_def)

text \<open>
  C10, amended: a photo's formation target is the phyllotaxis position for
  \<open>maxRadius = 5.5\<close> and \<open>heightScale = 11\<close> moved by \<open>(0, 0.5, 0)\<close> and its
  scatter target comes from the sphere of radius 20; a needle's are the
  phyllotaxis position for 4.5 and 10 and a point of the sphere of radius 18.
  For the same index, the same total (\<open>index < total\<close>) and the same jitter
  draw, the photo's formation radius exceeds the needle's.
\<close>

theorem photo_envelope:
  assumes "index < total'" "0 \<le> src n" "src n < 1"
  shows "treePos (fst (PhotoParticle_data index total' (src, n)))
           = Vector3_add (fst (getPhyllotaxisPosition index total' 5.5 11 (src, n)))
               (new_Vector3 (Fin 0) (Fin 0.5) (Fin 0))
       \<and> scatterPos (fst (PhotoParticle_data index total' (src, n)))
           = fst (randomVectorInSphere 20 (src, Suc n))
       \<and> treePos (fst (needle_particle index total' (src, n)))
           = fst (getPhyllotaxisPosition index total' 4.5 10 (src, n))
       \<and> scatterPos (fst (needle_particle index total' (src, n)))
           = fst (randomVectorInSphere 18 (src, Suc n))
       \<and> js_less (horizontal_radius (treePos (fst (needle_particle index total' (src, n)))))
                  (horizontal_radius (treePos (fst (PhotoParticle_data index total' (src, n)))))"
proof -
  have t: "0 < total'" using assms by simp
  let ?h = "1 - real index / real total'"
  let ?j = "0.8 + src n * 0.4"
  have "real index / real total' < 1"
    using assms by simp
  then have h: "0 < ?h" by simp
  have j: "0 < ?j" using assms by simp
  have hj: "0 < ?h * ?j" using h j by (rule mult_pos_pos)
  have rn: "horizontal_radius (treePos (fst (needle_particle index total' (src, n))))
              = Fin (4.5 * ?h * ?j)"
  proof -
    have "0 \<le> 4.5 * ?h * ?j" using h j by simp
    then show ?thesis
      by (simp only: needle_treePos phyllotaxis_radius [OF t] abs_of_nonneg)
  qed
  have rp: "horizontal_radius (treePos (fst (PhotoParticle_data index total' (src, n))))
              = Fin (5.5 * ?h * ?j)"
  proof -
    have "0 \<le> 5.5 * ?h * ?j" using h j by simp
    then show ?thesis
      by (simp only: photo_treePos horizontal_radius_add_vertical [OF phyllotaxis_finite [OF t]]
            phyllotaxis_radius [OF t] abs_of_nonneg)
  qed
  have "4.5 * (?h * ?j) < 5.5 * (?h * ?j)"
    using hj by (intro mult_strict_right_mono) auto
  then have "4.5 * ?h * ?j < 5.5 * ?h * ?j"
    by (simp only: mult.assoc)
  then have "js_less (horizontal_radius (treePos (fst (needle_particle index total' (src, n)))))
                  (horizontal_radius (treePos (fst (PhotoParticle_data index total' (src, n)))))"
    by (simp only: rn rp js_less.simps)
  then show ?thesis
    by (simp only: photo_treePos photo_scatterPos needle_treePos needle_scatterPos simp_thms)
qed

theorem photo_envelope_witness:
  "js_less (horizontal_radius (treePos (fst (needle_particle 1 2 (const_source (1 / 2), 0)))))
           (horizontal_radius (treePos (fst (PhotoParticle_data 1 2 (const_source (1 / 2), 0)))))
   \<and> scatterPos (fst (PhotoParticle_data 1 2 (const_source (1 / 2), 0)))
           = fst (randomVectorInSphere 20 (const_source (1 / 2), Suc 0))"
proof -
  have i: "(1::nat) < 2" by simp
  have lo: "0 \<le> const_source (1 / 2) 0" and hi: "const_source (1 / 2) 0 < 1"
    by (simp_all add: const_source_def)
  from photo_envelope [of 1 2 "const_source (1 / 2)" 0, OF i lo hi] show ?thesis by blast
qed

section \<open>Division by the total\<close>

lemma randomVectorInSphere_rng: "snd (randomVectorInSphere radius (src, n)) = (src, n + 3)"
  by (simp add: randomVectorInSphere_def Let_def)

lemma needle_particle_rng: "snd (needle_particle i count (src, n)) = (src, n + 7)"
  by (simp add: needle_particle_def case_prod_unfold Let_def phyllotaxis_rng randomVectorInSphere_rng)

lemma PhotoParticle_data_rng: "snd (PhotoParticle_data i total' (src, n)) = (src, n + 6)"
  by (simp add: PhotoParticle_data_def case_prod_unfold Let_def phyllotaxis_rng randomVectorInSphere_rng)

lemma phyllotaxis_total_zero:
  "\<not> isFinite (vy (fst (getPhyllotaxisPosition i 0 R H (src, n))))"
  by (simp add: getPhyllotaxisPosition_def Math_PI_def new_Vector3_def minus_jsnum_def
        Let_def inf_of_sign_def sgn_real_def)

lemma needle_loop_finite:
  "i + k = count \<Longrightarrow>
   p \<in> set (fst (Array_from_loop (\<lambda>i. needle_particle i count) i k (src, n))) \<Longrightarrow>
   Vector3_finite (treePos p)"
proof (induction k arbitrary: i n)
  case 0
  then show ?case by simp
next
  case (Suc k)
  have c: "0 < count" using Suc.prems(1) by simp
  obtain a g1 where a: "needle_particle i count (src, n) = (a, g1)"
    by (cases "needle_particle i count (src, n)")
  have g1: "g1 = (src, n + 7)"
    using needle_particle_rng [of i count src n] a by simp
  have fa: "Vector3_finite (treePos a)"
    using needle_treePos [of i count "(src, n)"] a phyllotaxis_finite [OF c] by simp
  from Suc.prems(2) have "p = a \<or> p \<in> set (fst (Array_from_loop (\<lambda>i. needle_particle i count) (Suc i) k (src, n + 7)))"
    by (simp add: a g1 case_prod_unfold Let_def)
  then show ?case
  proof
    assume "p = a" with fa show ?thesis by simp
  next
    assume "p \<in> set (fst (Array_from_loop (\<lambda>i. needle_particle i count) (Suc i) k (src, n + 7)))"
    moreover have "Suc i + k = count" using Suc.prems(1) by simp
    ultimately show ?thesis by (rule Suc.IH [rotated])
  qed
qed

lemma isFinite_add: "isFinite a \<Longrightarrow> isFinite b \<Longrightarrow> isFinite (a + b)"
  by (cases a; cases b) simp_all

lemma Vector3_add_finite:
  "Vector3_finite u \<Longrightarrow> Vector3_finite v \<Longrightarrow> Vector3_finite (Vector3_add u v)"
  by (simp add: Vector3_finite_def Vector3_add_def isFinite_add)

lemma photo_treePos_finite:
  assumes "index < total'"
  shows "Vector3_finite (treePos (fst (PhotoParticle_data index total' (src, n))))"
proof -
  have t: "0 < total'" using assms by simp
  have "Vector3_finite (new_Vector3 (Fin 0) (Fin 0.5) (Fin 0))"
    by (simp add: Vector3_finite_def new_Vector3_def)
  then show ?thesis
    by (simp only: photo_treePos Vector3_add_finite [OF phyllotaxis_finite [OF t]])
qed

text \<open>
  A division by a zero total would leave a height that is not finite
  (\<open>phyllotaxis_total_zero\<close>), so a generated position that is finite was
  computed without one.
\<close>

text \<open>
  C2: the position generator as the program runs it: the needle data of
  \<open>Array.from\<close> and the photo elements of \<open>imageUrls.map\<close>, the only two
  places that call \<open>getPhyllotaxisPosition\<close>. With \<open>total = 0\<close> it produces
  no position at all and divides nothing: for \<open>count = 0\<close> the needle data is
  the empty array, no call is made and no draw is taken, and with no url
  there is no photo element. No call divides by zero: every photo element
  has \<open>index < total\<close>, so its total is positive, and every formation
  position generated, for the needles of any count and for the photo
  elements of any list of urls, is finite. And for every call with
  \<open>total > 0\<close> the division is well-defined: the position returned is finite.
\<close>

theorem generator_never_called_with_zero:
  "NeedleParticles_data 0 g = ([], g)
   \<and> (imageUrls st = [] \<longrightarrow> App_photos st = [])
   \<and> (\<forall>p \<in> set (App_photos st). p_index p < p_total p)
   \<and> (\<forall>p \<in> set (fst (NeedleParticles_data count (src, n))). Vector3_finite (treePos p))
   \<and> (\<forall>p \<in> set (App_photos st).
         Vector3_finite (treePos (fst (PhotoParticle_data (p_index p) (p_total p) (src, n)))))
   \<and> (0 < total' \<longrightarrow> Vector3_finite (fst (getPhyllotaxisPosition index total' R H (src, n))))"
proof -
  have 1: "NeedleParticles_data 0 g = ([], g)"
    by (simp add: NeedleParticles_data_def Array_from_def)
  have 2: "imageUrls st = [] \<longrightarrow> App_photos st = []"
    by (simp add: App_photos_def)
  have 3: "\<forall>p \<in> set (App_photos st). p_index p < p_total p"
    by (auto simp: App_photos_def in_set_enumerate_eq)
  have 4: "\<forall>p \<in> set (fst (NeedleParticles_data count (src, n))). Vector3_finite (treePos p)"
    unfolding NeedleParticles_data_def Array_from_def
    using needle_loop_finite [of 0 count count _ src n] by simp
  have 5: "0 < total' \<longrightarrow> Vector3_finite (fst (getPhyllotaxisPosition index total' R H (src, n)))"
    using phyllotaxis_finite by blast
  have 6: "\<forall>p \<in> set (App_photos st).
         Vector3_finite (treePos (fst (PhotoParticle_data (p_index p) (p_total p) (src, n))))"
    using 3 photo_treePos_finite by blast
  show ?thesis
    using 1 2 3 4 5 6 by blast
qed


theorem generator_never_called_with_zero_witness:
  "NeedleParticles_data 0 (const_source (1 / 2), 0) = ([], (const_source (1 / 2), 0))
   \<and> App_photos App_initial = []
   \<and> list_all (\<lambda>p. p_index p < p_total p)
        (App_photos \<lparr>mode = ''SCATTERED'', imageUrls = [''blob:a'', ''blob:b'']\<rparr>)
   \<and> length (fst (NeedleParticles_data 2 (const_source (1 / 2), 0))) = 2
   \<and> list_all (\<lambda>p. Vector3_finite (treePos p))
        (fst (NeedleParticles_data 2 (const_source (1 / 2), 0)))
   \<and> list_all (\<lambda>p. Vector3_finite
                   (treePos (fst (PhotoParticle_data (p_index p) (p_total p)
                                    (const_source (1 / 2), 0)))))
        (App_photos \<lparr>mode = ''SCATTERED'', imageUrls = [''blob:a'', ''blob:b'']\<rparr>)
   \<and> length (App_photos \<lparr>mode = ''SCATTERED'', imageUrls = [''blob:a'', ''blob:b'']\<rparr>) = 2
   \<and> Vector3_finite (fst (getPhyllotaxisPosition 3 10 4.5 10 (const_source (1 / 2), 0)))"
proof -
  have len: "length (fst (NeedleParticles_data 2 (const_source (1 / 2), 0))) = 2"
    by (simp add: NeedleParticles_data_def Array_from_def numeral_2_eq_2 case_prod_unfold Let_def)
  have e: "imageUrls App_initial = []"
    by (simp add: App_initial_def)
  from generator_never_called_with_zero
         [of "(const_source (1 / 2), 0)" App_initial, THEN conjunct2, THEN conjunct1] e
  have ph0: "App_photos App_initial = []" by simp
  note t = generator_never_called_with_zero
         [of "(const_source (1 / 2), 0)"
             "\<lparr>mode = ''SCATTERED'', imageUrls = [''blob:a'', ''blob:b'']\<rparr>"
             2 "const_source (1 / 2)" 0 10 3 "4.5" 10]
  have plen: "length (App_photos \<lparr>mode = ''SCATTERED'', imageUrls = [''blob:a'', ''blob:b'']\<rparr>) = 2"
    by (simp add: App_photos_def)
  show ?thesis
    using t len plen ph0 by (simp add: list_all_iff)
qed

section \<open>The smoothed position of a needle\<close>

lemma two_needles_scatter:
  "map scatterPos two_needles
     = [new_Vector3 (Fin 0) (Fin 0) (Fin 0), new_Vector3 (Fin 9) (Fin 0) (Fin 0)]"
  by (simp add: two_needles_def NeedleParticles_data_def Array_from_def numeral_2_eq_2
        needle_particle_def getPhyllotaxisPosition_def randomVectorInSphere_def
        list_source_def Math_PI_def minus_jsnum_def root3_eighth Let_def new_Vector3_def)


lemma two_needles_eq:
  "two_needles =
     [\<lparr>treePos = new_Vector3 (Fin 4.5) (Fin (- 5)) (Fin 0),
       scatterPos = new_Vector3 (Fin 0) (Fin 0) (Fin 0),
       speed = Fin 0.1, rotationOffset = Fin 0, scale = Fin 0.4\<rparr>,
      \<lparr>treePos = new_Vector3 (Fin (cos (55 * pi / 72) * 2.25)) (Fin 0)
                             (Fin (sin (55 * pi / 72) * 2.25)),
       scatterPos = new_Vector3 (Fin 9) (Fin 0) (Fin 0),
       speed = Fin 0.1, rotationOffset = Fin 0, scale = Fin 0.4\<rparr>]"
  by (simp add: two_needles_def NeedleParticles_data_def Array_from_def numeral_2_eq_2
        needle_particle_def getPhyllotaxisPosition_def randomVectorInSphere_def
        list_source_def Math_PI_def minus_jsnum_def root3_eighth Let_def new_Vector3_def)

lemma lerp_Fin: "lerp (Fin a) (Fin b) (Fin t) = Fin ((1 - t) * a + t * b)"
  by (simp add: lerp_def minus_jsnum_def)

text \<open>
  The dummy object that a step of the loop leaves does not depend on what
  the mesh holds: the position stored for the particle itself is never read.
  The photo callback, in contrast, damps the position of its own mesh.
\<close>

lemma needle_step_ignores_mesh:
  "fst (needle_step targetT state delta particle i (dummy, mesh))
     = fst (needle_step targetT state delta particle i (dummy, mesh0))"
  by (simp add: needle_step_def Let_def)

lemma photo_reads_own_position:
  "map_option (\<lambda>m. vx (position m)) (PhotoParticle_useFrame mode' data state delta (Some m))
     = Some (damp (vx (position m))
                  (lerp (vx (scatterPos data)) (vx (treePos data)) (targetT_of mode'))
                  (Fin 1.2) delta)"
  by (simp add: PhotoParticle_useFrame_def Let_def lookAt_def rotateZ_def)

lemma chained_damp_differs:
  fixes e :: real
  assumes "e \<noteq> 0" "e \<noteq> 1"
  shows "((9 - 9 * e) * e - 9) * e \<noteq> - (9 * e * e)"
proof
  assume "((9 - 9 * e) * e - 9) * e = - (9 * e * e)"
  then have "e * (e - 1)\<^sup>2 = 0"
    by (simp add: power2_eq_square algebra_simps)
  then show False
    using assms by simp
qed

text \<open>
  C1 says that the damp step of particle \<open>i\<close> starts from the particle's own
  position of the previous frame. The needle callback starts it from the
  position of the shared dummy object, which is what the particle before it
  in the loop has just written (for the first particle: what the last
  particle wrote in the previous frame). Two needles, mode \<open>SCATTERED\<close>, two
  frames of \<open>delta = 1\<close>; the targets are \<open>x = 0\<close> for needle 0 and \<open>x = 9\<close> for
  needle 1, and the dummy starts at the origin. After frame 1 needle 0 is at
  its target 0 and needle 1 at \<open>damp(0, 9)\<close>. In frame 2 needle 0 is damped
  from needle 1's position, not from its own, and leaves its target; needle 1
  is then damped from the value needle 0 has just been given in this frame,
  not from its own position of frame 1.
\<close>

theorem shared_dummy_drives_damp:
  "slot_position 0 (NeedleParticles_frames ''SCATTERED'' two_needles
                      [(sample_state, Fin 1)] two_slots)
     = Some (new_Vector3 (Fin 0) (Fin 0) (Fin 0))
   \<and> slot_position 1 (NeedleParticles_frames ''SCATTERED'' two_needles
                      [(sample_state, Fin 1)] two_slots)
     = Some (new_Vector3 (damp (Fin 0) (Fin 9) (Fin 1.5) (Fin 1)) (Fin 0) (Fin 0))
   \<and> slot_position 0 (NeedleParticles_frames ''SCATTERED'' two_needles
                      [(sample_state, Fin 1), (sample_state, Fin 1)] two_slots)
     = Some (new_Vector3 (damp (damp (Fin 0) (Fin 9) (Fin 1.5) (Fin 1)) (Fin 0) (Fin 1.5) (Fin 1))
               (Fin 0) (Fin 0))
   \<and> slot_position 0 (NeedleParticles_frames ''SCATTERED'' two_needles
                      [(sample_state, Fin 1), (sample_state, Fin 1)] two_slots)
     \<noteq> Some (new_Vector3 (damp (Fin 0) (Fin 0) (Fin 1.5) (Fin 1)) (Fin 0) (Fin 0))
   \<and> slot_position 1 (NeedleParticles_frames ''SCATTERED'' two_needles
                      [(sample_state, Fin 1), (sample_state, Fin 1)] two_slots)
     = Some (new_Vector3
               (damp (damp (damp (Fin 0) (Fin 9) (Fin 1.5) (Fin 1)) (Fin 0) (Fin 1.5) (Fin 1))
                     (Fin 9) (Fin 1.5) (Fin 1))
               (Fin 0) (Fin 0))
   \<and> slot_position 1 (NeedleParticles_frames ''SCATTERED'' two_needles
                      [(sample_state, Fin 1), (sample_state, Fin 1)] two_slots)
     \<noteq> Some (new_Vector3 (damp (damp (Fin 0) (Fin 9) (Fin 1.5) (Fin 1)) (Fin 9) (Fin 1.5) (Fin 1))
               (Fin 0) (Fin 0))"
proof -
  have f1: "NeedleParticles_frames ''SCATTERED'' two_needles [(sample_state, Fin 1)] two_slots
     = NeedleParticles_useFrame ''SCATTERED'' two_needles sample_state (Fin 1) two_slots"
    by simp
  have f2: "NeedleParticles_frames ''SCATTERED'' two_needles
              [(sample_state, Fin 1), (sample_state, Fin 1)] two_slots
     = NeedleParticles_useFrame ''SCATTERED'' two_needles sample_state (Fin 1)
         (NeedleParticles_useFrame ''SCATTERED'' two_needles sample_state (Fin 1) two_slots)"
    by simp
  have e: "exp (- (3 / 2) :: real) \<noteq> 1"
    by simp
  show ?thesis
    unfolding f1 f2 using e chained_damp_differs [of "exp (- (3 / 2))"]
    by (simp add: two_needles_eq two_slots_def NeedleParticles_useFrame_def needle_step_def
      targetT_of_def new_Object3D_def new_Vector3_def damp_Fin lerp_Fin setMatrixAt_def
      updateMatrix_def setScalar_def sample_state_def slot_position_def Let_def)
qed

section \<open>The memoised record of a photo\<close>

text \<open>
  C3, as stated: when the collection grows only the formation target is
  recomputed, with the frozen jitter, and the scatter position stays. The
  record is one \<open>useMemo\<close> value with the dependencies \<open>[index, total]\<close>: a
  change of total runs the whole factory again. Photo 0, rendered with total
  1 and then with total 2: its scatter position moves from the origin to
  \<open>(10, 0, 0)\<close>, and the \<open>x\<close> of its formation target, which for index 0
  is \<open>5.5 * jitter\<close> whatever the total, changes from 5.5 to 4.4.
\<close>

theorem photo_regenerated_counterexample:
  "PhotoParticle_two_renders 0 1 2
     (list_source [1 / 2, 0, 1 / 2, 0, 0, 0, 0, 0, 1 / 2, 1 / 8, 0, 0], 0)
   = (\<lparr>treePos = new_Vector3 (Fin 5.5) (Fin (- 5)) (Fin 0),
       scatterPos = new_Vector3 (Fin 0) (Fin 0) (Fin 0),
       speed = Fin 0.05, rotationOffset = Fin 0\<rparr>,
      \<lparr>treePos = new_Vector3 (Fin 4.4) (Fin (- 5)) (Fin 0),
       scatterPos = new_Vector3 (Fin 10) (Fin 0) (Fin 0),
       speed = Fin 0.05, rotationOffset = Fin 0\<rparr>)
   \<and> scatterPos (snd (PhotoParticle_two_renders 0 1 2
          (list_source [1 / 2, 0, 1 / 2, 0, 0, 0, 0, 0, 1 / 2, 1 / 8, 0, 0], 0)))
     \<noteq> scatterPos (fst (PhotoParticle_two_renders 0 1 2
          (list_source [1 / 2, 0, 1 / 2, 0, 0, 0, 0, 0, 1 / 2, 1 / 8, 0, 0], 0)))
   \<and> vx (treePos (snd (PhotoParticle_two_renders 0 1 2
          (list_source [1 / 2, 0, 1 / 2, 0, 0, 0, 0, 0, 1 / 2, 1 / 8, 0, 0], 0))))
     \<noteq> vx (treePos (fst (PhotoParticle_two_renders 0 1 2
          (list_source [1 / 2, 0, 1 / 2, 0, 0, 0, 0, 0, 1 / 2, 1 / 8, 0, 0], 0))))"
proof -
  have r: "PhotoParticle_two_renders 0 1 2
     (list_source [1 / 2, 0, 1 / 2, 0, 0, 0, 0, 0, 1 / 2, 1 / 8, 0, 0], 0)
   = (\<lparr>treePos = new_Vector3 (Fin 5.5) (Fin (- 5)) (Fin 0),
       scatterPos = new_Vector3 (Fin 0) (Fin 0) (Fin 0),
       speed = Fin 0.05, rotationOffset = Fin 0\<rparr>,
      \<lparr>treePos = new_Vector3 (Fin 4.4) (Fin (- 5)) (Fin 0),
       scatterPos = new_Vector3 (Fin 10) (Fin 0) (Fin 0),
       speed = Fin 0.05, rotationOffset = Fin 0\<rparr>)"
    by (simp add: PhotoParticle_two_renders_def PhotoParticle_render_def useMemo_def
        PhotoParticle_data_def getPhyllotaxisPosition_def randomVectorInSphere_def
        list_source_def Math_PI_def minus_jsnum_def root3_eighth Let_def new_Vector3_def
        Vector3_add_def)
  show ?thesis
    unfolding r by (simp add: new_Vector3_def)
qed

text \<open>
  C3, amended: while index and total are those of the last computation the
  record is returned as stored and no draw is taken; when the total has
  changed the whole record is computed again from six fresh draws: the
  formation target from (index, new total, 5.5, 11) with a jitter from the
  first of them, the scatter position from the next three.
\<close>

theorem photo_data_memoised:
  "PhotoParticle_render index total' (Some ((index, total'), d)) g
     = (d, Some ((index, total'), d), g)
   \<and> (total2 \<noteq> total1 \<longrightarrow>
        PhotoParticle_render index total2 (Some ((index, total1), d)) (src, n)
          = (fst (PhotoParticle_data index total2 (src, n)),
             Some ((index, total2), fst (PhotoParticle_data index total2 (src, n))),
             (src, n + 6)))
   \<and> treePos (fst (PhotoParticle_data index total2 (src, n)))
       = Vector3_add (fst (getPhyllotaxisPosition index total2 5.5 11 (src, n)))
           (new_Vector3 (Fin 0) (Fin 0.5) (Fin 0))
   \<and> scatterPos (fst (PhotoParticle_data index total2 (src, n)))
       = fst (randomVectorInSphere 20 (src, Suc n))"
proof -
  have same: "PhotoParticle_render index total' (Some ((index, total'), d)) g
     = (d, Some ((index, total'), d), g)"
    by (simp add: PhotoParticle_render_def useMemo_def)
  have changed: "total2 \<noteq> total1 \<longrightarrow>
        PhotoParticle_render index total2 (Some ((index, total1), d)) (src, n)
          = (fst (PhotoParticle_data index total2 (src, n)),
             Some ((index, total2), fst (PhotoParticle_data index total2 (src, n))),
             (src, n + 6))"
    using PhotoParticle_data_rng [of index total2 src n]
    by (simp add: PhotoParticle_render_def useMemo_def case_prod_unfold Let_def)
  show ?thesis
    using same changed by (simp only: photo_treePos photo_scatterPos simp_thms)
qed

theorem photo_data_memoised_witness:
  "PhotoParticle_render 0 2 (Some ((0, 2), sample_photo)) (const_source (1 / 2), 6)
     = (sample_photo, Some ((0, 2), sample_photo), (const_source (1 / 2), 6))
   \<and> PhotoParticle_render 0 2 (Some ((0, 1), sample_photo)) (const_source (1 / 2), 6)
     = (fst (PhotoParticle_data 0 2 (const_source (1 / 2), 6)),
        Some ((0, 2), fst (PhotoParticle_data 0 2 (const_source (1 / 2), 6))),
        (const_source (1 / 2), 12))
   \<and> scatterPos (fst (PhotoParticle_data 0 2 (const_source (1 / 2), 6)))
       = fst (randomVectorInSphere 20 (const_source (1 / 2), 7))"
proof -
  have ne: "(2::nat) \<noteq> 1" by simp
  note t = photo_data_memoised [of 0 2 sample_photo "(const_source (1 / 2), 6)" 2 1
             "const_source (1 / 2)" 6]
  from t ne show ?thesis by simp
qed

end
